theory Spec2Isabelle
  imports Main "HOL-Library.Sublist"
begin

section \<open>Python text primitives\<close>

text \<open>
  A Python \<open>str\<close> is modelled as a \<open>string\<close>, one \<open>char\<close> per code point, for code
  points below 256. Python's integers are unbounded and are modelled as \<open>int\<close>; the
  interpreter's optional cap on the length of a decimal conversion is not modelled.
\<close>

text \<open>
  The exceptions the code raises or lets through. An exception of the operating system's
  family is made either by the code, with a message, or by a failed system call, with
  the error number and the file name of the call. \<open>TypeError\<close> and \<open>RuntimeError\<close>
  carry their message, \<open>ValueError\<close> the string that \<open>int\<close> refused, and
  \<open>UnboundLocalError\<close> the name of the variable.
\<close>

datatype exc_args = Message string | Errno nat string

datatype error =
    FileNotFoundError exc_args
  | OSError exc_args
  | TypeError string
  | RuntimeError string
  | ValueError string
  | UnboundLocalError string

text \<open>
  A failed system call raises \<open>FileNotFoundError\<close> for the error number 2 and another
  \<open>OSError\<close> otherwise.
\<close>

type_synonym os_failure = "nat \<times> string"

definition os_error :: "os_failure \<Rightarrow> error" where
  "os_error f = (if fst f = 2 then FileNotFoundError (Errno 2 (snd f))
                 else OSError (Errno (fst f) (snd f)))"

text \<open>\<open>str.isspace\<close> on one code point below 256.\<close>

definition isspace :: "char \<Rightarrow> bool" where
  "isspace c = (c \<in> set [CHR 0x09, CHR 0x0A, CHR 0x0B, CHR 0x0C, CHR 0x0D,
                          CHR 0x1C, CHR 0x1D, CHR 0x1E, CHR 0x1F, CHR 0x20,
                          CHR 0x85, CHR 0xA0])"

text \<open>Decimal digits: what \<open>\d\<close> and \<open>int\<close> accept below code point 256.\<close>

definition isdigit :: "char \<Rightarrow> bool" where
  "isdigit c = (c \<in> set ''0123456789'')"

definition digit_val :: "char \<Rightarrow> nat" where
  "digit_val c = of_char c - 48"

definition digit_char :: "nat \<Rightarrow> char" where
  "digit_char n = ''0123456789'' ! n"

text \<open>\<open>s.strip()\<close>: leading and trailing whitespace removed.\<close>

definition py_strip :: "string \<Rightarrow> string" where
  "py_strip s = rev (dropWhile isspace (rev (dropWhile isspace s)))"

text \<open>\<open>str(n)\<close> for an integer: decimal digits, a minus sign for a negative number.\<close>

function str_nat :: "nat \<Rightarrow> string" where
  "str_nat n = (if n < 10 then [digit_char n]
                else str_nat (n div 10) @ [digit_char (n mod 10)])"
  by pat_completeness auto
termination
  by (relation "measure id") auto

declare str_nat.simps [simp del]

definition str_int :: "int \<Rightarrow> string" where
  "str_int i = (if i < 0 then CHR ''-'' # str_nat (nat (- i)) else str_nat (nat i))"

text \<open>
  \<open>int(s)\<close> for a string, base 10: surrounding whitespace is ignored, one sign is
  allowed, then digits, where single underscores may stand between two digits. Anything
  else raises \<open>ValueError\<close>. The whitespace \<open>int\<close> ignores is narrower than
  \<open>str.isspace\<close>: the four separators \<open>0x1C\<close> to \<open>0x1F\<close> are not part of it.
\<close>

definition int_space :: "char \<Rightarrow> bool" where
  "int_space c = (c \<in> set [CHR 0x09, CHR 0x0A, CHR 0x0B, CHR 0x0C, CHR 0x0D, CHR 0x20,
                            CHR 0x85, CHR 0xA0])"

definition int_strip :: "string \<Rightarrow> string" where
  "int_strip s = rev (dropWhile int_space (rev (dropWhile int_space s)))"

fun int_digits :: "nat \<Rightarrow> string \<Rightarrow> nat option" where
  "int_digits acc [] = Some acc"
| "int_digits acc [c] = (if isdigit c then Some (10 * acc + digit_val c) else None)"
| "int_digits acc (c # d # cs) =
     (if isdigit c then int_digits (10 * acc + digit_val c) (d # cs)
      else if c = CHR ''_'' \<and> isdigit d then int_digits acc (d # cs)
      else None)"

definition int_body :: "string \<Rightarrow> nat option" where
  "int_body s = (case s of [] \<Rightarrow> None
                 | c # cs \<Rightarrow> if isdigit c then int_digits 0 s else None)"

definition int_literal :: "string \<Rightarrow> int option" where
  "int_literal t =
     (case t of
        [] \<Rightarrow> None
      | c # cs \<Rightarrow>
          if c = CHR ''-'' then map_option (\<lambda>n. - int n) (int_body cs)
          else if c = CHR ''+'' then map_option int (int_body cs)
          else map_option int (int_body t))"

definition py_int :: "string \<Rightarrow> error + int" where
  "py_int s = (case int_literal (int_strip s) of
                 None \<Rightarrow> Inl (ValueError s)
               | Some i \<Rightarrow> Inr i)"

text \<open>
  \<open>list(map(lambda s: int(s), xs))\<close>: the conversions run in order and the first
  failure propagates.
\<close>

fun map_int :: "string list \<Rightarrow> error + int list" where
  "map_int [] = Inr []"
| "map_int (s # ss) =
     (case py_int s of
        Inl e \<Rightarrow> Inl e
      | Inr i \<Rightarrow> (case map_int ss of Inl e \<Rightarrow> Inl e | Inr is \<Rightarrow> Inr (i # is)))"

text \<open>
  \<open>s.split(sep)\<close> with a separator: the occurrences of \<open>sep\<close> are found from the left
  and do not overlap; the pieces between them are returned, empty ones included. Both
  call sites pass a non-empty literal separator.
\<close>

function split_from :: "string \<Rightarrow> string \<Rightarrow> string \<Rightarrow> string list" where
  "split_from sep cur s =
     (if s = [] then [cur]
      else if sep \<noteq> [] \<and> take (length sep) s = sep
        then cur # split_from sep [] (drop (length sep) s)
      else split_from sep (cur @ [hd s]) (tl s))"
  by pat_completeness auto
termination
  by (relation "measure (\<lambda>(sep, cur, s). length s)") auto

declare split_from.simps [simp del]

definition py_split :: "string \<Rightarrow> string \<Rightarrow> string list" where
  "py_split sep s = split_from sep [] s"

section \<open>Files\<close>

text \<open>
  The file system maps a path to the text of the regular file there. Paths are compared
  as written.
\<close>

type_synonym fs = "string \<rightharpoonup> string"

definition isfile :: "fs \<Rightarrow> string \<Rightarrow> bool" where
  "isfile files p = (files p \<noteq> None)"

text \<open>\<open>os.path.join\<close> of two components, POSIX flavour.\<close>

definition os_path_join :: "string \<Rightarrow> string \<Rightarrow> string" where
  "os_path_join a b =
     (if b \<noteq> [] \<and> hd b = CHR ''/'' then b
      else if a = [] \<or> last a = CHR ''/'' then a @ b
      else a @ ''/'' @ b)"

text \<open>
  Reading a file opened in text mode: \<open>\r\n\<close> and a lone \<open>\r\<close> arrive as \<open>\n\<close>, and
  \<open>readlines\<close> cuts after every \<open>\n\<close>, keeping it; a last line without one is kept too.
\<close>

fun universal_newlines :: "string \<Rightarrow> string" where
  "universal_newlines [] = []"
| "universal_newlines [c] = (if c = CHR 0x0D then [CHR 0x0A] else [c])"
| "universal_newlines (c # d # cs) =
     (if c = CHR 0x0D \<and> d = CHR 0x0A then CHR 0x0A # universal_newlines cs
      else if c = CHR 0x0D then CHR 0x0A # universal_newlines (d # cs)
      else c # universal_newlines (d # cs))"

fun cut_lines :: "string \<Rightarrow> string \<Rightarrow> string list" where
  "cut_lines cur [] = (if cur = [] then [] else [cur])"
| "cut_lines cur (c # cs) =
     (if c = CHR 0x0A then (cur @ [c]) # cut_lines [] cs
      else cut_lines (cur @ [c]) cs)"

definition readlines :: "string \<Rightarrow> string list" where
  "readlines text = cut_lines [] (universal_newlines text)"

section \<open>The wrapper object\<close>

text \<open>
  One decoded line is the tuple \<open>(pattern, support, sequence_ids)\<close>. The fields of the
  object are those \<open>__init__\<close> assigns, written without the trailing underscore; the
  data frame is not modelled.
\<close>

type_synonym pattern = "int list \<times> int \<times> int list"

record spmf =
  executable_dir :: string
  executable :: string
  is_exist_executable :: bool
  agorithm_name :: string
  "input" :: string
  "output" :: string
  arguments :: "string list"
  parsed_output :: "pattern list"
  memory :: int

text \<open>
  What a caller can pass as \<open>input_direct\<close>: a string, a list of sequences of itemsets
  of integers, a list of strings, or something that is neither a string nor a list.
\<close>

datatype input_direct =
    StrInput string
  | SeqInput "int list list list"
  | TextInput "string list"
  | OtherInput

section \<open>Encoding the input\<close>

text \<open>
  What the operating system answers to the three calls of \<open>write_temp_input_file\<close>:
  \<open>NamedTemporaryFile\<close> makes a new empty file and gives its name, or fails; the write
  and the rename succeed or fail.
\<close>

record temp_os =
  named_temporary_file :: "os_failure + string"
  tf_write :: "os_failure option"
  os_rename :: "os_failure option"

text \<open>
  \<open>write_temp_input_file\<close>: the new file is made, the text is written there, and the
  file is renamed to carry the ending. A call that fails raises, and what was done before
  it stays.
\<close>

definition write_temp_input_file ::
  "fs \<Rightarrow> temp_os \<Rightarrow> string \<Rightarrow> string \<Rightarrow> (error + string) \<times> fs" where
  "write_temp_input_file files os input_text file_ending =
     (case named_temporary_file os of
        Inl f \<Rightarrow> (Inl (os_error f), files)
      | Inr name \<Rightarrow>
          (let tf = files(name \<mapsto> [])
           in case tf_write os of
                Some f \<Rightarrow> (Inl (os_error f), tf)
              | None \<Rightarrow>
                  (let written = tf(name \<mapsto> input_text)
                   in case os_rename os of
                        Some f \<Rightarrow> (Inl (os_error f), written)
                      | None \<Rightarrow>
                          (Inr (name @ file_ending),
                           (written(name := None))(name @ file_ending := written name)))))"

text \<open>
  The three nested loops of the normal encoding, with the string \<open>seq_spmf\<close> threaded
  through them. \<open>str_item\<close> is \<open>str\<close> on the items.
\<close>

definition encode_normal :: "('a \<Rightarrow> string) \<Rightarrow> 'a list list list \<Rightarrow> string" where
  "encode_normal str_item input_direct =
     foldl (\<lambda>seq_spmf seq.
        foldl (\<lambda>seq_spmf item_set.
           foldl (\<lambda>seq_spmf item. seq_spmf @ str_item item @ '' '') seq_spmf item_set
             @ str_int (- 1) @ '' '') seq_spmf seq
          @ str_int (- 2) @ ''\<newline>'') [] input_direct"

definition encode_text :: "string list \<Rightarrow> string" where
  "encode_text input_direct = foldl (\<lambda>seq_str seq. seq_str @ seq @ ''. '') [] input_direct"

definition no_input_format :: string where
  "no_input_format =
     ''no correct input format found (required: list or str, or input file via input_filename parameter)''"

definition concat_list_str :: string where
  "concat_list_str =
     ''can only concatenate list (not '' @ [CHR 0x22] @ ''str'' @ [CHR 0x22] @ '') to list''"

text \<open>
  \<open>handle_input\<close>. A list of strings in normal mode is iterated character by character:
  each character is an item set whose only item is itself. A list of lists in text mode
  fails at the first \<open>seq + ". "\<close>.
\<close>

definition handle_input ::
  "fs \<Rightarrow> temp_os \<Rightarrow> input_direct \<Rightarrow> string \<Rightarrow> string \<Rightarrow> (error + string) \<times> fs" where
  "handle_input files os input_direct input_filename input_type =
     (if input_filename \<noteq> [] then (Inr input_filename, files)
      else case input_direct of
        StrInput text \<Rightarrow>
          (if input_type = ''normal''
             then write_temp_input_file files os text ''.txt''
           else if input_type = ''text''
             then write_temp_input_file files os text ''.text''
           else (Inl (UnboundLocalError ''file_ending''), files))
      | SeqInput seqs \<Rightarrow>
          (if input_type = ''normal''
             then write_temp_input_file files os (encode_normal str_int seqs) ''.txt''
           else if input_type = ''text''
             then (if seqs = []
                   then write_temp_input_file files os [] ''.text''
                   else (Inl (TypeError concat_list_str), files))
           else (Inl (TypeError no_input_format), files))
      | TextInput strs \<Rightarrow>
          (if input_type = ''normal''
             then write_temp_input_file files os
                    (encode_normal (\<lambda>c. [c]) (map (map (\<lambda>c. [c])) strs)) ''.txt''
           else if input_type = ''text''
             then write_temp_input_file files os (encode_text strs) ''.text''
           else (Inl (TypeError no_input_format), files))
      | OtherInput \<Rightarrow> (Inl (TypeError no_input_format), files))"

section \<open>Construction\<close>

text \<open>
  \<open>__init__\<close>. \<open>module_dir\<close> is the directory of the module file, \<open>os\<close> what the
  operating system would answer when a temporary file is written.
\<close>

definition init ::
  "fs \<Rightarrow> string \<Rightarrow> temp_os \<Rightarrow> string \<Rightarrow> input_direct \<Rightarrow> string \<Rightarrow> string \<Rightarrow> string \<Rightarrow>
   string list \<Rightarrow> string \<Rightarrow> int \<Rightarrow> (error + spmf) \<times> fs" where
  "init files module_dir os algorithm_name input_direct input_type input_filename
        output_filename args spmf_bin_location_dir mem =
     (let dir0 = spmf_bin_location_dir;
          exe = ''spmf.jar'';
          exist0 = isfile files (os_path_join dir0 exe);
          dir1 = (if \<not> exist0 then module_dir else dir0);
          exist1 = (if \<not> exist0 then isfile files (os_path_join dir1 exe) else exist0)
      in if \<not> exist1
         then (Inl (FileNotFoundError
                     (Message (exe @ '' not found. Please'' @
                               '' use the spmf_bin_location_dir argument.''))),
               files)
         else case handle_input files os input_direct input_filename input_type of
                (Inl e, files') \<Rightarrow> (Inl e, files')
              | (Inr inp, files') \<Rightarrow>
                  (Inr \<lparr> executable_dir = dir1, executable = exe,
                         is_exist_executable = exist1,
                         agorithm_name = algorithm_name, input = inp,
                         output = output_filename, arguments = args,
                         parsed_output = [], memory = mem \<rparr>,
                   files'))"

section \<open>The command line\<close>

text \<open>The list \<open>subprocess_arguments\<close> that \<open>run\<close> builds and hands to the subprocess.\<close>

definition subprocess_arguments :: "spmf \<Rightarrow> string list" where
  "subprocess_arguments self =
     (let args0 = [''java''];
          args1 = (if memory self \<noteq> 0
                   then args0 @ [''-Xmx'' @ str_int (memory self) @ ''m'']
                   else args0);
          args2 = args1 @ [''-jar'', os_path_join (executable_dir self) (executable self),
                           ''run'', agorithm_name self, input self, output self]
      in args2 @ arguments self)"

section \<open>Decoding the output\<close>

text \<open>
  The pattern \<open>^(.+)(-2 )?#SUP: (\d+) #SID: (.+)$\<close>, matched the way a backtracking
  matcher does: every piece gets the rest of the pattern as a continuation; a greedy
  one offers its longest match first and shorter ones when the continuation fails.
\<close>

fun backtrack :: "(string \<Rightarrow> string \<Rightarrow> 'a option) \<Rightarrow> string \<Rightarrow> nat \<Rightarrow> 'a option" where
  "backtrack k s 0 = None"
| "backtrack k s (Suc n) =
     (case k (take (Suc n) s) (drop (Suc n) s) of
        Some r \<Rightarrow> Some r
      | None \<Rightarrow> backtrack k s n)"

text \<open>\<open>(c+)\<close> for a character class \<open>c\<close>, capturing.\<close>

definition re_plus :: "(char \<Rightarrow> bool) \<Rightarrow> (string \<Rightarrow> string \<Rightarrow> 'a option) \<Rightarrow> string \<Rightarrow> 'a option" where
  "re_plus cls k s = backtrack k s (length (takeWhile cls s))"

text \<open>\<open>(lit)?\<close>, capturing: first with the literal, then without.\<close>

definition re_opt :: "string \<Rightarrow> (string option \<Rightarrow> string \<Rightarrow> 'a option) \<Rightarrow> string \<Rightarrow> 'a option" where
  "re_opt lit k s =
     (case (if take (length lit) s = lit then k (Some lit) (drop (length lit) s) else None) of
        Some r \<Rightarrow> Some r
      | None \<Rightarrow> k None s)"

definition re_lit :: "string \<Rightarrow> (string \<Rightarrow> 'a option) \<Rightarrow> string \<Rightarrow> 'a option" where
  "re_lit lit k s = (if take (length lit) s = lit then k (drop (length lit) s) else None)"

text \<open>\<open>.\<close> is any character but a newline; \<open>$\<close> holds at the end and before a final newline.\<close>

definition re_dot :: "char \<Rightarrow> bool" where
  "re_dot c = (c \<noteq> CHR 0x0A)"

definition re_eol :: "string \<Rightarrow> bool" where
  "re_eol s = (s = [] \<or> s = ''\<newline>'')"

text \<open>
  \<open>re.search\<close> with this pattern: \<open>^\<close> holds at position 0 only, so the search is a
  match from the start. The result is \<open>match.groups()\<close>.
\<close>

definition re_search :: "string \<Rightarrow> (string \<times> string option \<times> string \<times> string) option" where
  "re_search line =
     re_plus re_dot (\<lambda>g1.
       re_opt ''-2 '' (\<lambda>g2.
         re_lit ''#SUP: ''
           (re_plus isdigit (\<lambda>g3.
              re_lit '' #SID: ''
                (re_plus re_dot (\<lambda>g4 rest.
                   if re_eol rest then Some (g1, g2, g3, g4) else None)))))) line"

text \<open>The pattern from \<open>#SUP:\<close> on, for given first and second groups.\<close>

definition after_marker ::
  "string \<Rightarrow> string option \<Rightarrow> string \<Rightarrow> (string \<times> string option \<times> string \<times> string) option" where
  "after_marker g1 g2 =
     re_lit ''#SUP: ''
       (re_plus isdigit (\<lambda>g3.
          re_lit '' #SID: ''
            (re_plus re_dot (\<lambda>g4 rest.
               if re_eol rest then Some (g1, g2, g3, g4) else None))))"

definition cannot_parse :: string where
  "cannot_parse = ''cannot parse SPMF output. check if format is desired.''"

text \<open>The body of the loop of \<open>parse_output\<close>, for one line as \<open>readlines\<close> gives it.\<close>

definition parse_line :: "string \<Rightarrow> error + pattern" where
  "parse_line line0 =
     (let line = py_strip line0 in
      case re_search line of
        None \<Rightarrow> Inl (RuntimeError cannot_parse)
      | Some (pat, _, support, sequence_ids) \<Rightarrow>
          (case map_int (filter (\<lambda>s. length s > 0) (py_split '' -1 '' pat)) of
             Inl e \<Rightarrow> Inl e
           | Inr pat' \<Rightarrow>
               (case py_int support of
                  Inl e \<Rightarrow> Inl e
                | Inr support' \<Rightarrow>
                    (case map_int (py_split '' '' sequence_ids) of
                       Inl e \<Rightarrow> Inl e
                     | Inr sequence_ids' \<Rightarrow> Inr (pat', support', sequence_ids')))))"

fun parse_lines :: "pattern list \<Rightarrow> string list \<Rightarrow> error + pattern list" where
  "parse_lines parsed [] = Inr parsed"
| "parse_lines parsed (line # lines) =
     (case parse_line line of
        Inl e \<Rightarrow> Inl e
      | Inr p \<Rightarrow> parse_lines (parsed @ [p]) lines)"

text \<open>
  \<open>parse_output\<close>: the result is what the call raised, if anything, and the object
  afterwards. The field is assigned only after the loop has finished.
\<close>

definition parse_output :: "fs \<Rightarrow> spmf \<Rightarrow> (error + unit) \<times> spmf" where
  "parse_output files self =
     (case files (output self) of
        None \<Rightarrow> (Inl (FileNotFoundError (Errno 2 (output self))), self)
      | Some text \<Rightarrow>
          (case parse_lines [] (readlines text) of
             Inl e \<Rightarrow> (Inl e, self)
           | Inr parsed \<Rightarrow> (Inr (), self\<lparr>parsed_output := parsed\<rparr>)))"

section \<open>The re-tokenizer of the round-trip property\<close>

text \<open>
  The repository has no reader for its own input format. The round-trip property is
  stated against a re-tokenizer written from the specification's words: the text is cut
  into tokens at whitespace, every token is read as an integer, \<open>-1\<close> closes the current
  item set and \<open>-2\<close> closes the current sequence. Text that ends inside an item set or
  a sequence is refused.
\<close>

fun ws_tokens :: "string \<Rightarrow> string \<Rightarrow> string list" where
  "ws_tokens cur [] = (if cur = [] then [] else [cur])"
| "ws_tokens cur (c # cs) =
     (if isspace c then (if cur = [] then ws_tokens [] cs else cur # ws_tokens [] cs)
      else ws_tokens (cur @ [c]) cs)"

fun regroup :: "int list \<Rightarrow> int list list \<Rightarrow> int list \<Rightarrow> int list list list option" where
  "regroup item_set seq [] = (if item_set = [] \<and> seq = [] then Some [] else None)"
| "regroup item_set seq (t # ts) =
     (if t = - 1 then regroup [] (seq @ [item_set]) ts
      else if t = - 2
        then (if item_set = [] then map_option ((#) seq) (regroup [] [] ts) else None)
      else regroup (item_set @ [t]) seq ts)"

definition spec_retokenize :: "string \<Rightarrow> int list list list option" where
  "spec_retokenize text =
     (case map_int (ws_tokens [] text) of
        Inl e \<Rightarrow> None
      | Inr ts \<Rightarrow> regroup [] [] ts)"

text \<open>The integers an encoded collection consists of, sentinels included.\<close>

definition token_stream :: "int list list list \<Rightarrow> int list" where
  "token_stream seqs =
     concat (map (\<lambda>seq. concat (map (\<lambda>item_set. item_set @ [- 1]) seq) @ [- 2]) seqs)"

text \<open>No item of the collection is one of the two sentinels.\<close>

definition sentinel_free :: "int list list list \<Rightarrow> bool" where
  "sentinel_free seqs =
     list_all (list_all (list_all (\<lambda>item. item \<noteq> - 1 \<and> item \<noteq> - 2))) seqs"

section \<open>Digits and integers\<close>

lemma digit_char_props:
  assumes "n < 10"
  shows "isdigit (digit_char n)" and "digit_val (digit_char n) = n"
proof -
  from assms have "n \<in> {0, 1, 2, 3, 4, 5, 6, 7, 8, 9}" by auto
  then show "isdigit (digit_char n)" and "digit_val (digit_char n) = n"
    by (auto simp: isdigit_def digit_char_def digit_val_def)
qed

lemma isdigit_not_space: "isdigit c \<Longrightarrow> \<not> isspace c"
  by (auto simp: isdigit_def isspace_def)

lemma isdigit_not_sign: "isdigit c \<Longrightarrow> c \<noteq> CHR ''-'' \<and> c \<noteq> CHR ''+''"
  by (auto simp: isdigit_def)

lemma str_nat_digits: "list_all isdigit (str_nat n) \<and> str_nat n \<noteq> []"
proof (induction n rule: str_nat.induct)
  case (1 n)
  show ?case
  proof (cases "n < 10")
    case True
    then show ?thesis
      by (subst (1 2) str_nat.simps) (simp add: digit_char_props)
  next
    case False
    then show ?thesis
      using 1 by (subst (1 2) str_nat.simps) (simp add: digit_char_props)
  qed
qed

lemma int_digits_all:
  "list_all isdigit ds \<Longrightarrow>
   int_digits acc ds = Some (foldl (\<lambda>a c. 10 * a + digit_val c) acc ds)"
  by (induction acc ds rule: int_digits.induct) auto

lemma foldl_str_nat: "foldl (\<lambda>a c. 10 * a + digit_val c) 0 (str_nat n) = n"
proof (induction n rule: str_nat.induct)
  case (1 n)
  show ?case
  proof (cases "n < 10")
    case True
    then show ?thesis
      by (subst str_nat.simps) (simp add: digit_char_props)
  next
    case False
    then show ?thesis
      using 1 by (subst str_nat.simps) (simp add: digit_char_props)
  qed
qed

lemma int_body_str_nat: "int_body (str_nat n) = Some n"
proof -
  obtain c cs where s: "str_nat n = c # cs"
    using str_nat_digits [of n] by (cases "str_nat n") auto
  then have "isdigit c"
    using str_nat_digits [of n] by simp
  then show ?thesis
    using int_digits_all [of "str_nat n" 0] str_nat_digits [of n] foldl_str_nat [of n] s
    by (simp add: int_body_def)
qed

lemma str_int_no_space: "list_all (\<lambda>c. \<not> isspace c) (str_int i) \<and> str_int i \<noteq> []"
proof -
  have "list_all (\<lambda>c. \<not> isspace c) (str_nat n)" for n
    using str_nat_digits [of n] by (auto simp: list_all_iff isdigit_not_space)
  moreover have "\<not> isspace CHR ''-''"
    by (simp add: isspace_def)
  ultimately show ?thesis
    using str_nat_digits by (simp add: str_int_def)
qed

lemma int_space_isspace: "int_space c \<Longrightarrow> isspace c"
  by (auto simp: int_space_def isspace_def)

lemma int_strip_no_space:
  assumes "list_all (\<lambda>c. \<not> isspace c) s"
  shows "int_strip s = s"
proof -
  have d: "dropWhile int_space t = t" if "list_all (\<lambda>c. \<not> isspace c) t" for t
    using that int_space_isspace by (cases t) auto
  have "list_all (\<lambda>c. \<not> isspace c) (rev s)"
    using assms by (simp add: list_all_iff)
  then show ?thesis
    using assms by (simp add: int_strip_def d)
qed

lemma int_literal_str_int: "int_literal (str_int i) = Some i"
proof (cases "i < 0")
  case True
  then show ?thesis
    by (simp add: int_literal_def str_int_def int_body_str_nat)
next
  case False
  obtain c cs where s: "str_nat (nat i) = c # cs"
    using str_nat_digits [of "nat i"] by (cases "str_nat (nat i)") auto
  then have "isdigit c"
    using str_nat_digits [of "nat i"] by simp
  then have "c \<noteq> CHR ''-''" "c \<noteq> CHR ''+''"
    using isdigit_not_sign by blast+
  then show ?thesis
    using False s int_body_str_nat [of "nat i"]
    by (simp add: int_literal_def str_int_def)
qed

text \<open>Reading back what \<open>str\<close> printed gives the integer again.\<close>

lemma py_int_str_int: "py_int (str_int i) = Inr i"
  using str_int_no_space [of i]
  by (simp add: py_int_def int_strip_no_space int_literal_str_int)

lemma map_int_str_int: "map_int (map str_int ts) = Inr ts"
  by (induction ts) (simp_all add: py_int_str_int)

lemma str_int_sentinels: "str_int (- 1) = ''-1''" "str_int (- 2) = ''-2''"
  by code_simp+

section \<open>The encoder\<close>

lemma foldl_append_concat: "foldl (\<lambda>a x. a @ f x) a xs = a @ concat (map f xs)"
  by (induction xs arbitrary: a) simp_all

text \<open>The three loops write the sequences one after the other.\<close>

lemma encode_normal_concat:
  "encode_normal str_item seqs =
     concat (map (\<lambda>seq. concat (map (\<lambda>item_set.
        concat (map (\<lambda>item. str_item item @ '' '') item_set) @ str_int (- 1) @ '' '') seq)
          @ str_int (- 2) @ ''\<newline>'') seqs)"
  by (simp add: encode_normal_def foldl_append_concat)

lemma encode_scenario:
  "encode_normal str_int [[[1, 2], [3]], [[1], [3]]]
     = ''1 2 -1 3 -1 -2\<newline>1 -1 3 -1 -2\<newline>''"
  by code_simp

lemma readlines_scenario:
  "readlines ''1 2 -1 3 -1 -2\<newline>1 -1 3 -1 -2\<newline>''
     = [''1 2 -1 3 -1 -2\<newline>'', ''1 -1 3 -1 -2\<newline>'']"
  by code_simp

text \<open>
  Claim C5: normal-mode encoding of \<open>[[[1,2],[3]], [[1],[3]]]\<close> produces exactly the
  two lines \<open>1 2 -1 3 -1 -2\<close> and \<open>1 -1 3 -1 -2\<close>, each ended by a newline, in that
  order; when the three system calls succeed, they are the text of the new file with
  the ending \<open>.txt\<close>.
\<close>

theorem normal_encoding_scenario:
  "handle_input files
       \<lparr> named_temporary_file = Inr name, tf_write = None, os_rename = None \<rparr>
       (SeqInput [[[1, 2], [3]], [[1], [3]]]) [] ''normal'' =
     (Inr (name @ ''.txt''),
      (files(name := None))
        (name @ ''.txt'' \<mapsto> ''1 2 -1 3 -1 -2\<newline>1 -1 3 -1 -2\<newline>''))
   \<and> readlines (encode_normal str_int [[[1, 2], [3]], [[1], [3]]]) =
       [''1 2 -1 3 -1 -2\<newline>'', ''1 -1 3 -1 -2\<newline>'']"
  by (simp add: handle_input_def write_temp_input_file_def encode_scenario
      readlines_scenario Let_def)

subsection \<open>Round trip\<close>

lemma ws_tokens_word:
  "list_all (\<lambda>c. \<not> isspace c) w \<Longrightarrow> isspace c \<Longrightarrow> cur @ w \<noteq> [] \<Longrightarrow>
   ws_tokens cur (w @ c # rest) = (cur @ w) # ws_tokens [] rest"
  by (induction w arbitrary: cur) auto

lemma ws_tokens_int:
  "isspace c \<Longrightarrow> ws_tokens [] (str_int i @ c # rest) = str_int i # ws_tokens [] rest"
  using ws_tokens_word [of "str_int i" c "[]" rest] str_int_no_space [of i] by simp

lemma space_chars: "isspace CHR '' ''" "isspace CHR 0x0A"
  by (simp_all add: isspace_def)

lemma ws_tokens_items:
  "ws_tokens [] (concat (map (\<lambda>item. str_int item @ '' '') item_set) @ rest)
     = map str_int item_set @ ws_tokens [] rest"
  by (induction item_set) (simp_all add: ws_tokens_int space_chars)

lemma ws_tokens_seq:
  "ws_tokens [] (concat (map (\<lambda>item_set.
        concat (map (\<lambda>item. str_int item @ '' '') item_set) @ str_int (- 1) @ '' '') seq) @ rest)
     = map str_int (concat (map (\<lambda>item_set. item_set @ [- 1]) seq)) @ ws_tokens [] rest"
  by (induction seq) (simp_all add: ws_tokens_items ws_tokens_int space_chars)

lemma ws_tokens_encode:
  "ws_tokens [] (encode_normal str_int seqs @ rest)
     = map str_int (token_stream seqs) @ ws_tokens [] rest"
  unfolding encode_normal_concat token_stream_def
  by (induction seqs) (simp_all add: ws_tokens_seq ws_tokens_int space_chars)

lemma regroup_items:
  "list_all (\<lambda>item. item \<noteq> - 1 \<and> item \<noteq> - 2) item_set \<Longrightarrow>
   regroup cur seq (item_set @ ts) = regroup (cur @ item_set) seq ts"
  by (induction item_set arbitrary: cur) simp_all

lemma regroup_seq:
  "list_all (list_all (\<lambda>item. item \<noteq> - 1 \<and> item \<noteq> - 2)) seq \<Longrightarrow>
   regroup [] closed (concat (map (\<lambda>item_set. item_set @ [- 1]) seq) @ ts)
     = regroup [] (closed @ seq) ts"
  by (induction seq arbitrary: closed) (simp_all add: regroup_items)

lemma regroup_stream:
  "sentinel_free seqs \<Longrightarrow> regroup [] [] (token_stream seqs) = Some seqs"
  unfolding sentinel_free_def token_stream_def
  by (induction seqs) (simp_all add: regroup_seq)

text \<open>
  Claim C4, as the code has it: for every list of sequences of itemsets of integers in
  which no item is \<open>-1\<close> or \<open>-2\<close>, re-tokenizing the normal-mode encoding on whitespace
  and the two sentinels gives back the original nested structure.
\<close>

theorem normal_round_trip:
  assumes "sentinel_free seqs"
  shows "spec_retokenize (encode_normal str_int seqs) = Some seqs"
proof -
  have "ws_tokens [] (encode_normal str_int seqs) = map str_int (token_stream seqs)"
    using ws_tokens_encode [of seqs "[]"] by simp
  then show ?thesis
    using assms by (simp add: spec_retokenize_def map_int_str_int regroup_stream)
qed

theorem normal_round_trip_witness:
  "sentinel_free [[[1, 2], [3]], [[1], [3]], [], [[]]]
   \<and> spec_retokenize (encode_normal str_int [[[1, 2], [3]], [[1], [3]], [], [[]]])
       = Some [[[1, 2], [3]], [[1], [3]], [], [[]]]"
proof -
  have h: "sentinel_free [[[1, 2], [3]], [[1], [3]], [], [[]]]"
    by (simp add: sentinel_free_def)
  show ?thesis
    using h normal_round_trip [OF h] by simp
qed

text \<open>
  Claim C4 as stated fails: an item that is a sentinel is written like the sentinel, so
  the collections \<open>[[[-1]]]\<close> and \<open>[[[], []]]\<close> have the same encoding and no reader can
  tell them apart.
\<close>

theorem sentinel_item_collides:
  "encode_normal str_int [[[- 1]]] = encode_normal str_int [[[], []]]
   \<and> [[[- 1]]] \<noteq> [[[], [] :: int list]]
   \<and> spec_retokenize (encode_normal str_int [[[- 1]]]) = Some [[[], []]]"
  by code_simp

subsection \<open>Unknown input types\<close>

text \<open>
  Claim C10: with no input file name and an input type that is neither \<open>normal\<close> nor
  \<open>text\<close>, a string as direct input fails with the unbound local variable
  \<open>file_ending\<close>, while a list reaches the error for a wrong input format. No file is
  written in either case.
\<close>

theorem unknown_input_type:
  assumes "input_type \<noteq> ''normal''" and "input_type \<noteq> ''text''"
  shows "handle_input files os (StrInput text) [] input_type =
           (Inl (UnboundLocalError ''file_ending''), files)
       \<and> handle_input files os (SeqInput seqs) [] input_type =
           (Inl (TypeError no_input_format), files)
       \<and> handle_input files os (TextInput strs) [] input_type =
           (Inl (TypeError no_input_format), files)"
  using assms by (simp add: handle_input_def)

theorem unknown_input_type_witness:
  "handle_input Map.empty
       \<lparr> named_temporary_file = Inr ''tmp'', tf_write = None, os_rename = None \<rparr>
       (StrInput ''1 -1 -2'') [] ''csv'' =
           (Inl (UnboundLocalError ''file_ending''), Map.empty)
       \<and> handle_input Map.empty
       \<lparr> named_temporary_file = Inr ''tmp'', tf_write = None, os_rename = None \<rparr>
       (SeqInput [[[1]]]) [] ''csv'' =
           (Inl (TypeError no_input_format), Map.empty)
       \<and> handle_input Map.empty
       \<lparr> named_temporary_file = Inr ''tmp'', tf_write = None, os_rename = None \<rparr>
       (TextInput [''a'']) [] ''csv'' =
           (Inl (TypeError no_input_format), Map.empty)"
  using unknown_input_type [of "''csv''" Map.empty
      "\<lparr> named_temporary_file = Inr ''tmp'', tf_write = None, os_rename = None \<rparr>"
      "''1 -1 -2''" "[[[1]]]" "[''a'']"]
  by simp

section \<open>Construction and the command line\<close>

lemma os_error_no_message: "os_error f \<noteq> FileNotFoundError (Message msg)"
  by (simp add: os_error_def)

lemma write_temp_input_file_no_message:
  "fst (write_temp_input_file files os input_text file_ending)
     \<noteq> Inl (FileNotFoundError (Message msg))"
  by (simp add: write_temp_input_file_def Let_def os_error_no_message
      split: sum.splits option.splits)

text \<open>
  Whatever \<open>handle_input\<close> raises, it is not a \<open>FileNotFoundError\<close> made with a
  message: the only one it can raise comes from a failed system call.
\<close>

lemma handle_input_not_missing:
  "fst (handle_input files os input_direct input_filename input_type)
     \<noteq> Inl (FileNotFoundError (Message msg))"
  by (cases input_direct)
     (simp_all add: handle_input_def write_temp_input_file_no_message)

text \<open>
  With the engine in place, construction can still end in a \<open>FileNotFoundError\<close>, the
  one of the system call that makes the temporary file.
\<close>

lemma temp_file_failure:
  assumes "isfile files (os_path_join spmf_bin_location_dir ''spmf.jar'')"
    and "named_temporary_file os = Inl (2, tmp)"
  shows "init files module_dir os algorithm_name (StrInput text) ''normal'' []
           output_filename args spmf_bin_location_dir mem
         = (Inl (FileNotFoundError (Errno 2 tmp)), files)"
  using assms
  by (simp add: init_def Let_def handle_input_def write_temp_input_file_def os_error_def)

text \<open>
  Claim C8: construction fails with the error for the missing engine, the
  \<open>FileNotFoundError\<close> with the message \<open>spmf.jar not found. Please use the
  spmf_bin_location_dir argument.\<close>, exactly when \<open>spmf.jar\<close> is a file neither in the
  directory the caller gave nor in the directory of the module; and then nothing else
  has happened: no input was encoded and the files are as before.
\<close>

theorem missing_engine:
  "((fst (init files module_dir os algorithm_name input_direct input_type
             input_filename output_filename args spmf_bin_location_dir mem)
       = Inl (FileNotFoundError
                (Message ''spmf.jar not found. Please use the spmf_bin_location_dir argument.'')))
     = (\<not> isfile files (os_path_join spmf_bin_location_dir ''spmf.jar'')
        \<and> \<not> isfile files (os_path_join module_dir ''spmf.jar'')))
   \<and> (\<not> isfile files (os_path_join spmf_bin_location_dir ''spmf.jar'')
        \<and> \<not> isfile files (os_path_join module_dir ''spmf.jar'')
      \<longrightarrow> init files module_dir os algorithm_name input_direct input_type
                    input_filename output_filename args spmf_bin_location_dir mem
          = (Inl (FileNotFoundError
                    (Message
                       ''spmf.jar not found. Please use the spmf_bin_location_dir argument.'')),
             files))"
proof -
  let ?h = "handle_input files os input_direct input_filename input_type"
  have nm: "\<And>msg. fst ?h \<noteq> Inl (FileNotFoundError (Message msg))"
    by (rule handle_input_not_missing)
  show ?thesis
  proof (cases "isfile files (os_path_join spmf_bin_location_dir ''spmf.jar'')
                \<or> isfile files (os_path_join module_dir ''spmf.jar'')")
    case True
    then show ?thesis
      using nm by (cases ?h; cases "fst ?h") (auto simp: init_def Let_def split: sum.splits)
  next
    case False
    then show ?thesis
      by (simp add: init_def Let_def)
  qed
qed

theorem missing_engine_witness:
  "\<not> isfile Map.empty (os_path_join ''.'' ''spmf.jar'')
   \<and> \<not> isfile Map.empty (os_path_join ''/site-packages/spmf'' ''spmf.jar'')
   \<and> init Map.empty ''/site-packages/spmf''
        \<lparr> named_temporary_file = Inr ''/tmp/tmpk3x'', tf_write = None, os_rename = None \<rparr>
        ''PrefixSpan'' (SeqInput [[[1, 2], [3]]]) ''normal'' [] ''spmf-output.txt'' [] ''.'' 0
       = (Inl (FileNotFoundError
                 (Message
                    ''spmf.jar not found. Please use the spmf_bin_location_dir argument.'')),
          Map.empty)"
  using missing_engine [of Map.empty "''/site-packages/spmf''"
      "\<lparr> named_temporary_file = Inr ''/tmp/tmpk3x'', tf_write = None, os_rename = None \<rparr>"
      "''PrefixSpan''" "SeqInput [[[1, 2], [3]]]" "''normal''" "[]" "''spmf-output.txt''"
      "[]" "''.''" 0]
  by (simp add: isfile_def)

text \<open>
  Claim C9, as the code has it: the command line is the runtime \<open>java\<close>, then the memory
  flag \<open>-Xmx<N>m\<close> when the configured budget \<open>N\<close> is not zero (a negative one
  included) and nothing when it is zero, then \<open>-jar\<close>, the path of the engine, \<open>run\<close>,
  the algorithm name, the input path, the output path, and the extra arguments in the
  caller's order.
\<close>

theorem subprocess_arguments_shape:
  "subprocess_arguments self =
     ''java'' #
     (if memory self = 0 then [] else [''-Xmx'' @ str_int (memory self) @ ''m'']) @
     [''-jar'', os_path_join (executable_dir self) (executable self), ''run'',
      agorithm_name self, input self, output self] @
     arguments self"
  by (simp add: subprocess_arguments_def)

lemma str_int_512: "str_int 512 = ''512''"
  by code_simp

theorem subprocess_arguments_shape_witness:
  "subprocess_arguments \<lparr> executable_dir = ''.'', executable = ''spmf.jar'',
         is_exist_executable = True, agorithm_name = ''PrefixSpan'', input = ''in.txt'',
         output = ''out.txt'', arguments = [''50%'', ''3''], parsed_output = [],
         memory = 512 \<rparr>
     = [''java'', ''-Xmx512m'', ''-jar'', ''./spmf.jar'', ''run'', ''PrefixSpan'',
        ''in.txt'', ''out.txt'', ''50%'', ''3'']"
  using subprocess_arguments_shape [of "\<lparr> executable_dir = ''.'', executable = ''spmf.jar'',
         is_exist_executable = True, agorithm_name = ''PrefixSpan'', input = ''in.txt'',
         output = ''out.txt'', arguments = [''50%'', ''3''], parsed_output = [],
         memory = 512 \<rparr>"]
  by (simp add: str_int_512 os_path_join_def)

text \<open>
  Claim C9 as stated fails: with the budget \<open>-1\<close>, which is not positive, the flag is
  there.
\<close>

theorem negative_memory_flag:
  "\<not> 0 < memory \<lparr> executable_dir = ''.'', executable = ''spmf.jar'',
         is_exist_executable = True, agorithm_name = ''PrefixSpan'', input = ''in.txt'',
         output = ''out.txt'', arguments = [], parsed_output = [], memory = - 1 \<rparr>
   \<and> subprocess_arguments \<lparr> executable_dir = ''.'', executable = ''spmf.jar'',
         is_exist_executable = True, agorithm_name = ''PrefixSpan'', input = ''in.txt'',
         output = ''out.txt'', arguments = [], parsed_output = [], memory = - 1 \<rparr>
     = [''java'', ''-Xmx-1m'', ''-jar'', ''./spmf.jar'', ''run'', ''PrefixSpan'',
        ''in.txt'', ''out.txt'']"
  by (simp add: subprocess_arguments_def str_int_sentinels os_path_join_def)

section \<open>The decoder\<close>

text \<open>
  Claim C7: decoding an output file of zero bytes raises nothing and stores the empty
  list of patterns.
\<close>

theorem empty_output:
  "parse_output (files(output self \<mapsto> [])) self = (Inr (), self\<lparr>parsed_output := []\<rparr>)"
  by (simp add: parse_output_def readlines_def)

subsection \<open>Lines with item sets of several items\<close>

lemma readlines_one_line:
  "readlines ''1 2 -1 3 -1 #SUP: 2 #SID: 0 1'' = [''1 2 -1 3 -1 #SUP: 2 #SID: 0 1'']"
  by code_simp

lemma parse_line_two_items:
  "parse_line ''1 2 -1 3 -1 #SUP: 2 #SID: 0 1'' = Inl (ValueError ''1 2'')"
  by code_simp

text \<open>
  Claim C1 says that the line \<open>1 2 -1 3 -1 #SUP: 2 #SID: 0 1\<close> decodes to the elements
  \<open>[1,2,3]\<close>, the support 2 and the sequence ids \<open>[0,1]\<close>. The code cuts the pattern at
  \<open>-1\<close> only and hands the piece \<open>1 2\<close> to \<open>int\<close>: decoding raises \<open>ValueError\<close> and
  the stored patterns stay as they were.
\<close>

theorem multi_item_itemset_line:
  "parse_output (files(output self \<mapsto> ''1 2 -1 3 -1 #SUP: 2 #SID: 0 1'')) self
     = (Inl (ValueError ''1 2''), self)"
  by (simp add: parse_output_def readlines_one_line parse_line_two_items)

subsection \<open>The end marker\<close>

lemma backtrack_Some:
  "backtrack k s n = Some x \<Longrightarrow>
   \<exists>m. 0 < m \<and> m \<le> n \<and> k (take m s) (drop m s) = Some x
       \<and> (\<forall>j. m < j \<and> j \<le> n \<longrightarrow> k (take j s) (drop j s) = None)"
proof (induction n)
  case 0
  then show ?case by simp
next
  case (Suc n)
  show ?case
  proof (cases "k (take (Suc n) s) (drop (Suc n) s)")
    case None
    with Suc.prems have "backtrack k s n = Some x" by simp
    from Suc.IH [OF this] obtain m where m: "0 < m" "m \<le> n" "k (take m s) (drop m s) = Some x"
      "\<forall>j. m < j \<and> j \<le> n \<longrightarrow> k (take j s) (drop j s) = None" by blast
    have "k (take j s) (drop j s) = None" if "m < j" "j \<le> Suc n" for j
    proof (cases "j = Suc n")
      case True
      then show ?thesis using None by blast
    next
      case False
      then show ?thesis using that m(4) by auto
    qed
    with m(1-3) show ?thesis
      by (intro exI [of _ m]) auto
  next
    case (Some y)
    with Suc.prems have "k (take (Suc n) s) (drop (Suc n) s) = Some x" by simp
    then show ?thesis
      by (intro exI [of _ "Suc n"]) auto
  qed
qed

lemma backtrack_success_cong:
  assumes "\<And>g r. (k g r = None) = (k' g r = None)"
  shows "(backtrack k s n = None) = (backtrack k' s n = None)"
proof (induction n)
  case 0
  show ?case by simp
next
  case (Suc n)
  have h: "(k (take (Suc n) s) (drop (Suc n) s) = None)
         = (k' (take (Suc n) s) (drop (Suc n) s) = None)"
    by (rule assms)
  show ?case
  proof (cases "k (take (Suc n) s) (drop (Suc n) s)")
    case None
    moreover from None h have "k' (take (Suc n) s) (drop (Suc n) s) = None" by simp
    ultimately show ?thesis using Suc by simp
  next
    case (Some y)
    moreover from Some h obtain y' where "k' (take (Suc n) s) (drop (Suc n) s) = Some y'"
      by auto
    ultimately show ?thesis by simp
  qed
qed

lemma re_plus_success_cong:
  "(\<And>g r. (k g r = None) = (k' g r = None)) \<Longrightarrow>
   (re_plus cls k s = None) = (re_plus cls k' s = None)"
  unfolding re_plus_def by (rule backtrack_success_cong)

lemma re_lit_success_cong:
  "(\<And>r. (k r = None) = (k' r = None)) \<Longrightarrow>
   (re_lit lit k s = None) = (re_lit lit k' s = None)"
  unfolding re_lit_def by simp

lemma re_plus_result:
  assumes "re_plus cls k s = Some x"
  obtains g r where "k g r = Some x"
  using assms backtrack_Some [of k s "length (takeWhile cls s)" x]
  unfolding re_plus_def by blast

lemma re_lit_result:
  assumes "re_lit lit k s = Some x"
  obtains r where "k r = Some x"
  using assms unfolding re_lit_def by (auto split: if_splits)

lemma re_search_after_marker:
  "re_search line = re_plus re_dot (\<lambda>g1. re_opt ''-2 '' (after_marker g1)) line"
  unfolding re_search_def after_marker_def [abs_def] ..

lemma after_marker_success:
  "(after_marker g1 g2 t = None) = (after_marker g1' g2' t = None)"
  unfolding after_marker_def
  by (intro re_lit_success_cong re_plus_success_cong) simp

lemma after_marker_groups:
  assumes "after_marker g1 g2 t = Some (a, b, c, d)"
  shows "a = g1 \<and> b = g2"
proof -
  from assms obtain r1 where
    "re_plus isdigit (\<lambda>g3. re_lit '' #SID: ''
        (re_plus re_dot (\<lambda>g4 rest. if re_eol rest then Some (g1, g2, g3, g4) else None))) r1
     = Some (a, b, c, d)"
    unfolding after_marker_def by (rule re_lit_result)
  then obtain g3 r2 where
    "re_lit '' #SID: ''
        (re_plus re_dot (\<lambda>g4 rest. if re_eol rest then Some (g1, g2, g3, g4) else None)) r2
     = Some (a, b, c, d)"
    by (rule re_plus_result)
  then obtain r3 where
    "re_plus re_dot (\<lambda>g4 rest. if re_eol rest then Some (g1, g2, g3, g4) else None) r3
     = Some (a, b, c, d)"
    by (rule re_lit_result)
  then obtain g4 r4 where
    "(if re_eol r4 then Some (g1, g2, g3, g4) else None) = Some (a, b, c, d)"
    by (rule re_plus_result)
  then show ?thesis
    by (simp split: if_splits)
qed

lemma takeWhile_extend:
  assumes "m \<le> length (takeWhile P s)" and "take 3 (drop m s) = [a, b, c]"
    and "P a" "P b" "P c"
  shows "m + 3 \<le> length (takeWhile P s)"
proof -
  have tk: "take m s = take m (takeWhile P s)"
  proof -
    have "take m s = take m (takeWhile P s @ dropWhile P s)" by simp
    also have "\<dots> = take m (takeWhile P s)" using assms(1) by (simp del: takeWhile_dropWhile_id)
    finally show ?thesis .
  qed
  have pre: "\<forall>x \<in> set (take m s). P x"
  proof
    fix x assume "x \<in> set (take m s)"
    then have "x \<in> set (takeWhile P s)" using tk by (metis in_set_takeD)
    then show "P x" by (rule set_takeWhileD [THEN conjunct2])
  qed
  have "drop m s = take 3 (drop m s) @ drop 3 (drop m s)"
    by (simp only: append_take_drop_id)
  then have "drop m s = a # b # c # drop 3 (drop m s)"
    using assms(2) by simp
  then have s: "s = take m s @ a # b # c # drop 3 (drop m s)"
    by (metis append_take_drop_id)
  have "takeWhile P s = take m s @ a # b # c # takeWhile P (drop 3 (drop m s))"
    by (subst s) (simp add: takeWhile_append2 pre assms(3-5))
  moreover have "length (take m s) = m"
    using assms(1) length_takeWhile_le [of P s] by simp
  ultimately show ?thesis by simp
qed

lemma re_dot_marker: "re_dot CHR ''-''" "re_dot CHR ''2''" "re_dot CHR '' ''"
  by (simp_all add: re_dot_def)

lemma re_opt_marker:
  "re_opt ''-2 '' k t =
     (case (if take 3 t = ''-2 '' then k (Some ''-2 '') (drop 3 t) else None) of
        Some r \<Rightarrow> Some r
      | None \<Rightarrow> k None t)"
  by (simp add: re_opt_def numeral_3_eq_3)

lemma re_opt_Some_marker:
  assumes "re_opt ''-2 '' (after_marker g) t = Some (g1, Some mk, g3, g4)"
  shows "take 3 t = ''-2 '' \<and> after_marker g (Some ''-2 '') (drop 3 t) \<noteq> None"
proof (cases "take 3 t = ''-2 ''")
  case True
  show ?thesis
  proof (cases "after_marker g (Some ''-2 '') (drop 3 t)")
    case None
    with True assms have "after_marker g None t = Some (g1, Some mk, g3, g4)"
      by (simp add: re_opt_marker)
    from after_marker_groups [OF this] show ?thesis by simp
  next
    case (Some y)
    with True show ?thesis by simp
  qed
next
  case False
  with assms have "after_marker g None t = Some (g1, Some mk, g3, g4)"
    by (simp add: re_opt_marker)
  from after_marker_groups [OF this] show ?thesis by simp
qed

lemma re_opt_None:
  assumes "re_opt ''-2 '' (after_marker g) t = None"
  shows "after_marker g None t = None"
  using assms by (simp add: re_opt_marker split: if_splits option.splits)

text \<open>
  Whenever the pattern matches, the optional group is empty: if the marker could be
  matched by the group, the greedy first group, tried longer first, has already taken
  it.
\<close>

lemma optional_group_never_matches:
  assumes "re_search line = Some (g1, g2, g3, g4)"
  shows "g2 = None"
proof (cases g2)
  case None
  then show ?thesis .
next
  case (Some mk)
  let ?n = "length (takeWhile re_dot line)"
  let ?k = "\<lambda>g1. re_opt ''-2 '' (after_marker g1)"
  from assms Some have "backtrack ?k line ?n = Some (g1, Some mk, g3, g4)"
    by (simp add: re_search_after_marker re_plus_def)
  from backtrack_Some [OF this] obtain m where
    m: "m \<le> ?n" "?k (take m line) (drop m line) = Some (g1, Some mk, g3, g4)"
    and later: "\<forall>j. m < j \<and> j \<le> ?n \<longrightarrow> ?k (take j line) (drop j line) = None"
    by blast
  from re_opt_Some_marker [OF m(2)] have marker: "take 3 (drop m line) = ''-2 ''"
    and rest: "after_marker (take m line) (Some ''-2 '') (drop 3 (drop m line)) \<noteq> None"
    by blast+
  have "m + 3 \<le> ?n"
    using takeWhile_extend [OF m(1) marker] re_dot_marker by simp
  with later have "?k (take (m + 3) line) (drop (m + 3) line) = None"
    by simp
  then have "after_marker (take (m + 3) line) None (drop (m + 3) line) = None"
    by (rule re_opt_None)
  then have "after_marker (take m line) (Some ''-2 '') (drop (m + 3) line) = None"
    using after_marker_success by blast
  with rest show ?thesis
    by (simp add: add.commute)
qed

text \<open>
  Claim C2 says that a line with the marker \<open>-2\<close> before \<open>#SUP:\<close> decodes like the line
  without it. The first group of the pattern is greedy and takes the marker, the
  optional group stays empty, and \<open>-2\<close> ends up as an element: with the marker the
  elements are \<open>[1,3,-2]\<close>, without it \<open>[1,3]\<close>. The two lines of the claim both raise
  \<open>ValueError\<close>.
\<close>

theorem end_marker_kept:
  "re_search ''1 -1 3 -1 -2 #SUP: 1 #SID: 0'' = Some (''1 -1 3 -1 -2 '', None, ''1'', ''0'')
   \<and> parse_line ''1 -1 3 -1 -2 #SUP: 1 #SID: 0'' = Inr ([1, 3, - 2], 1, [0])
   \<and> parse_line ''1 -1 3 -1 #SUP: 1 #SID: 0'' = Inr ([1, 3], 1, [0])
   \<and> parse_line ''1 2 -1 3 -1 -2 #SUP: 1 #SID: 0'' = Inl (ValueError ''1 2'')
   \<and> parse_line ''1 2 -1 3 -1 #SUP: 1 #SID: 0'' = Inl (ValueError ''1 2'')"
  by code_simp

subsection \<open>The loop over the lines\<close>

lemma parse_line_no_match:
  "re_search (py_strip l) = None \<Longrightarrow> parse_line l = Inl (RuntimeError cannot_parse)"
  by (simp add: parse_line_def)

lemma parse_lines_fails:
  "parse_line l = Inl e \<Longrightarrow> l \<in> set ls \<Longrightarrow> \<exists>e'. parse_lines acc ls = Inl e'"
  by (induction ls arbitrary: acc) (auto split: sum.splits)

lemma parse_lines_first_failure:
  "list_all (\<lambda>p. \<exists>r. parse_line p = Inr r) pre \<Longrightarrow> parse_line l = Inl e \<Longrightarrow>
   parse_lines acc (pre @ l # post) = Inl e"
  by (induction pre arbitrary: acc) (auto split: sum.splits)

text \<open>
  When the loop finishes, it has appended one pattern per line, in the order of the
  lines; and it finishes when every line decodes.
\<close>

lemma parse_lines_all:
  "parse_lines acc ls = Inr ps \<Longrightarrow>
     \<exists>qs. ps = acc @ qs \<and> length qs = length ls \<and> map parse_line ls = map Inr qs"
proof (induction ls arbitrary: acc)
  case Nil
  then show ?case by simp
next
  case (Cons l ls)
  then obtain p where p: "parse_line l = Inr p" and rest: "parse_lines (acc @ [p]) ls = Inr ps"
    by (auto split: sum.splits)
  from Cons.IH [OF rest] obtain qs where
    "ps = (acc @ [p]) @ qs" "length qs = length ls" "map parse_line ls = map Inr qs"
    by blast
  then show ?case using p
    by (intro exI [of _ "p # qs"]) simp
qed

lemma parse_lines_total:
  "map parse_line ls = map Inr qs \<Longrightarrow> parse_lines acc ls = Inr (acc @ qs)"
proof (induction ls arbitrary: acc qs)
  case Nil
  then show ?case by simp
next
  case (Cons l ls)
  then obtain q qs' where "qs = q # qs'" by (cases qs) auto
  with Cons show ?case by auto
qed

lemma readlines_two_lines:
  "readlines ''1 -1 2 -1 #SUP: 2 #SID: 0 1\<newline>1 2 -1 3 -1 #SUP: 2 #SID: 0 1\<newline>''
     = [''1 -1 2 -1 #SUP: 2 #SID: 0 1\<newline>'', ''1 2 -1 3 -1 #SUP: 2 #SID: 0 1\<newline>'']"
  by code_simp

lemma parse_line_first:
  "parse_line ''1 -1 2 -1 #SUP: 2 #SID: 0 1\<newline>'' = Inr ([1, 2], 2, [0, 1])"
  by code_simp

lemma parse_line_second:
  "parse_line ''1 2 -1 3 -1 #SUP: 2 #SID: 0 1\<newline>'' = Inl (ValueError ''1 2'')"
  by code_simp

text \<open>
  Claim C6 says that an output file whose lines all match the grammar decodes to one
  pattern per line. Both lines of this file match it, the second with an item set of
  two items; decoding raises \<open>ValueError\<close> there and gives no pattern for either line.
\<close>

theorem well_formed_artifact_fails:
  "parse_output
     (files(output self \<mapsto>
        ''1 -1 2 -1 #SUP: 2 #SID: 0 1\<newline>1 2 -1 3 -1 #SUP: 2 #SID: 0 1\<newline>'')) self
     = (Inl (ValueError ''1 2''), self)"
  by (simp add: parse_output_def readlines_two_lines parse_line_first parse_line_second)

subsection \<open>Lines that do not match\<close>

text \<open>
  A call that raises leaves the object as it was: the stored patterns are assigned only
  after the loop.
\<close>

lemma parse_output_failure_keeps_state:
  "fst (parse_output files self) = Inl e \<Longrightarrow> snd (parse_output files self) = self"
  by (auto simp: parse_output_def split: option.splits sum.splits)

text \<open>
  Claim C3, as the code has it: if a line of the output file does not match the pattern
  \<open>^(.+)(-2 )?#SUP: (\d+) #SID: (.+)$\<close> and every line before it decodes, decoding
  raises the parse error, with its fixed message, gives no partial result and leaves
  the object, its stored patterns included, as it was.
\<close>

theorem malformed_line_aborts:
  assumes "files (output self) = Some text"
    and "readlines text = pre @ l # post"
    and "list_all (\<lambda>p. \<exists>r. parse_line p = Inr r) pre"
    and "re_search (py_strip l) = None"
  shows "parse_output files self = (Inl (RuntimeError cannot_parse), self)"
proof -
  have bad: "parse_line l = Inl (RuntimeError cannot_parse)"
    using assms(4) by (rule parse_line_no_match)
  show ?thesis
    using parse_lines_first_failure [OF assms(3) bad, of "[]" post] assms(1,2)
    by (simp add: parse_output_def)
qed

lemma readlines_garbage:
  "readlines ''1 -1 #SUP: 1 #SID: 0\<newline>garbage line without sentinel\<newline>''
     = [''1 -1 #SUP: 1 #SID: 0\<newline>''] @ ''garbage line without sentinel\<newline>'' # []"
  by code_simp

lemma re_search_garbage:
  "re_search (py_strip ''garbage line without sentinel\<newline>'') = None"
  by code_simp

lemma parse_line_single:
  "parse_line ''1 -1 #SUP: 1 #SID: 0\<newline>'' = Inr ([1], 1, [0])"
  by code_simp

theorem malformed_line_aborts_witness:
  "parse_output
     [''spmf-output.txt'' \<mapsto>
        ''1 -1 #SUP: 1 #SID: 0\<newline>garbage line without sentinel\<newline>'']
     \<lparr> executable_dir = ''.'', executable = ''spmf.jar'', is_exist_executable = True,
       agorithm_name = ''PrefixSpan'', input = ''in.txt'', output = ''spmf-output.txt'',
       arguments = [], parsed_output = [([7], 1, [0])], memory = 0 \<rparr>
   = (Inl (RuntimeError ''cannot parse SPMF output. check if format is desired.''),
      \<lparr> executable_dir = ''.'', executable = ''spmf.jar'', is_exist_executable = True,
        agorithm_name = ''PrefixSpan'', input = ''in.txt'', output = ''spmf-output.txt'',
        arguments = [], parsed_output = [([7], 1, [0])], memory = 0 \<rparr>)"
proof -
  let ?self = "\<lparr> executable_dir = ''.'', executable = ''spmf.jar'',
       is_exist_executable = True, agorithm_name = ''PrefixSpan'', input = ''in.txt'',
       output = ''spmf-output.txt'', arguments = [], parsed_output = [([7], 1, [0])],
       memory = 0 \<rparr>"
  let ?text = "''1 -1 #SUP: 1 #SID: 0\<newline>garbage line without sentinel\<newline>''"
  have f: "[''spmf-output.txt'' \<mapsto> ?text] (output ?self) = Some ?text"
    by simp
  have p: "list_all (\<lambda>p. \<exists>r. parse_line p = Inr r) [''1 -1 #SUP: 1 #SID: 0\<newline>'']"
    by (simp add: parse_line_single)
  show ?thesis
    using malformed_line_aborts [of "[''spmf-output.txt'' \<mapsto> ?text]" ?self ?text
        "[''1 -1 #SUP: 1 #SID: 0\<newline>'']" "''garbage line without sentinel\<newline>''" "[]"]
      f readlines_garbage re_search_garbage p
    by (simp add: cannot_parse_def)
qed

text \<open>
  Claim C3 as stated fails in three ways. The parse error does not name the offending
  line: two different lines that do not match raise the same error, whose message
  contains neither. A line that is outside the grammar because an item is not an
  integer still matches the pattern, and decoding raises \<open>ValueError\<close>, not the parse
  error. And when a line with an item set of two items stands before the line that
  does not match, decoding raises \<open>ValueError\<close> before it gets there.
\<close>

theorem error_names_no_line:
  "parse_lines [] [''garbage line without sentinel'']
     = Inl (RuntimeError ''cannot parse SPMF output. check if format is desired.'')
   \<and> parse_lines [] [''1 -1 #SUP: 1'']
     = Inl (RuntimeError ''cannot parse SPMF output. check if format is desired.'')
   \<and> \<not> sublist ''garbage line without sentinel''
           ''cannot parse SPMF output. check if format is desired.''
   \<and> \<not> sublist ''1 -1 #SUP: 1''
           ''cannot parse SPMF output. check if format is desired.''
   \<and> parse_lines [] [''x -1 #SUP: 1 #SID: 0''] = Inl (ValueError ''x'')
   \<and> parse_lines [] [''1 2 -1 #SUP: 1 #SID: 0'', ''garbage line without sentinel'']
     = Inl (ValueError ''1 2'')"
  by code_simp

end
